theory Spec2Isabelle
  imports Main "HOL-Library.Sublist"
begin

section \<open>ECMAScript values and their textual form\<close>

text \<open>
  The formatter of \<^verbatim>\<open>server-common/src/validation/index.ts\<close> turns values into text in
  two ways: by calling \<^verbatim>\<open>toString()\<close> on them and by interpolating them into template
  literals. Both end in the language's \<^verbatim>\<open>ToString\<close> operation.

  Strings are \<^typ>\<open>string\<close>. The type of numbers is the type variable \<open>'n\<close>, and the
  text of a number (\<^verbatim>\<open>Number::toString\<close>, radix 10) is a parameter \<open>nts\<close> of every
  function that prints one: the theorems hold for whatever text the language gives a
  number. An array length and a set size are natural numbers below \<open>2^32\<close>, which the
  language prints as plain decimal numerals: \<open>toString_nat\<close>.

  \<^verbatim>\<open>Array<any>\<close> holds values of any kind: \<open>js_value\<close> has the primitive values and
  nested arrays (objects with a \<^verbatim>\<open>toString\<close> of their own are not modelled).
\<close>

datatype 'n js_value =
    JSUndefined
  | JSNull
  | JSBoolean bool
  | JSNumber 'n
  | JSString string
  | JSArray "'n js_value list"

datatype js_error = TypeError

text \<open>\<^verbatim>\<open>Array.prototype.join\<close> on texts that are already rendered.\<close>

fun join :: "string \<Rightarrow> string list \<Rightarrow> string" where
  "join sep [] = []"
| "join sep [x] = x"
| "join sep (x # y # ys) = x @ sep @ join sep (y # ys)"

text \<open>
  \<^verbatim>\<open>ToString\<close>: an array prints as its elements joined by a comma, where an element
  that is \<^verbatim>\<open>undefined\<close> or \<^verbatim>\<open>null\<close> prints as the empty text.
\<close>

fun ToString :: "('n \<Rightarrow> string) \<Rightarrow> 'n js_value \<Rightarrow> string" where
  "ToString nts JSUndefined = ''undefined''"
| "ToString nts JSNull = ''null''"
| "ToString nts (JSBoolean b) = (if b then ''true'' else ''false'')"
| "ToString nts (JSNumber n) = nts n"
| "ToString nts (JSString s) = s"
| "ToString nts (JSArray xs) =
     join '','' (map (\<lambda>x. if x = JSUndefined \<or> x = JSNull then [] else ToString nts x) xs)"

text \<open>Decimal numerals, for lengths and sizes, and for the integers of the examples.\<close>

definition digitChar :: "nat \<Rightarrow> char" where
  "digitChar d = ''0123456789'' ! d"

fun toString_nat :: "nat \<Rightarrow> string" where
  "toString_nat n =
     (if n < 10 then [digitChar n] else toString_nat (n div 10) @ [digitChar (n mod 10)])"

declare toString_nat.simps [simp del]

definition toString_int :: "int \<Rightarrow> string" where
  "toString_int i = (if i < 0 then ''-'' @ toString_nat (nat (- i)) else toString_nat (nat i))"

text \<open>
  A template literal \<^verbatim>\<open>${x}\<close> with \<^verbatim>\<open>x: number | undefined\<close>; \<open>None\<close> is
  \<^verbatim>\<open>undefined\<close>.
\<close>

fun template :: "('n \<Rightarrow> string) \<Rightarrow> 'n option \<Rightarrow> string" where
  "template nts None = ''undefined''"
| "template nts (Some n) = nts n"

text \<open>\<^verbatim>\<open>xs[i]\<close>: reading past the end of an array gives \<^verbatim>\<open>undefined\<close>, here \<open>None\<close>.\<close>

definition index :: "'a list \<Rightarrow> nat \<Rightarrow> 'a option" where
  "index xs i = (if i < length xs then Some (xs ! i) else None)"


section \<open>Validation failures\<close>

text \<open>
  The union \<^verbatim>\<open>ValidationFailure\<close>, one constructor for each \<^verbatim>\<open>constraintType\<close>. The
  fields are, in this order, \<^verbatim>\<open>memberName\<close>, \<^verbatim>\<open>constraintValues\<close> (where the variant
  has it) and \<^verbatim>\<open>failureValue\<close> (where the variant has it). The bounds of a length or
  range failure are a pair whose components may be \<^verbatim>\<open>undefined\<close>; the TypeScript type
  excludes the pair of two \<^verbatim>\<open>undefined\<close>, the running code does not.
\<close>

datatype 'n ValidationFailure =
    EnumValidationFailure string "string list" string
  | LengthValidationFailure string "'n option \<times> 'n option" 'n
  | PatternValidationFailure string string string
  | RangeValidationFailure string "'n option \<times> 'n option" 'n
  | RequiredValidationFailure string
  | UniqueItemsValidationFailure string "'n js_value list"

fun memberName :: "'n ValidationFailure \<Rightarrow> string" where
  "memberName (EnumValidationFailure m cv fv) = m"
| "memberName (LengthValidationFailure m cv fv) = m"
| "memberName (PatternValidationFailure m cv fv) = m"
| "memberName (RangeValidationFailure m cv fv) = m"
| "memberName (RequiredValidationFailure m) = m"
| "memberName (UniqueItemsValidationFailure m fv) = m"


section \<open>generateValidationMessage\<close>

text \<open>
  The first statement of the function:
  \<^verbatim>\<open>failure.constraintType === "required" ? "null" : failure.failureValue.toString()\<close>.
\<close>

fun failureValue :: "('n \<Rightarrow> string) \<Rightarrow> 'n ValidationFailure \<Rightarrow> string" where
  "failureValue nts (RequiredValidationFailure m) = ''null''"
| "failureValue nts (EnumValidationFailure m cv fv) = fv"
| "failureValue nts (LengthValidationFailure m cv fv) = nts fv"
| "failureValue nts (PatternValidationFailure m cv fv) = fv"
| "failureValue nts (RangeValidationFailure m cv fv) = nts fv"
| "failureValue nts (UniqueItemsValidationFailure m fv) = ToString nts (JSArray fv)"

text \<open>The \<^verbatim>\<open>switch\<close>: the variable \<^verbatim>\<open>prefix\<close> of each case.\<close>

fun message_prefix :: "'n ValidationFailure \<Rightarrow> string" where
  "message_prefix (RequiredValidationFailure m) = ''Value''"
| "message_prefix (EnumValidationFailure m cv fv) = ''Value''"
| "message_prefix (LengthValidationFailure m cv fv) = ''Value with length''"
| "message_prefix (PatternValidationFailure m cv fv) = ''Value''"
| "message_prefix (RangeValidationFailure m cv fv) = ''Value''"
| "message_prefix (UniqueItemsValidationFailure m fv) = ''Value with repeated values''"

text \<open>The \<^verbatim>\<open>switch\<close>: the variable \<^verbatim>\<open>suffix\<close> of each case.\<close>

fun message_suffix :: "('n \<Rightarrow> string) \<Rightarrow> 'n ValidationFailure \<Rightarrow> string" where
  "message_suffix nts (RequiredValidationFailure m) = ''must not be null''"
| "message_suffix nts (EnumValidationFailure m cv fv) =
     ''must satisfy enum value set: '' @ join '','' cv"
| "message_suffix nts (LengthValidationFailure m cv fv) =
     (let min = fst cv; max = snd cv in
      if min = None then ''must have length less than or equal to '' @ template nts max
      else if max = None then ''must have length greater than or equal to '' @ template nts min
      else ''must have length between '' @ template nts min @ '' and '' @ template nts max
             @ '', inclusive'')"
| "message_suffix nts (PatternValidationFailure m cv fv) =
     ''must satisfy regular expression pattern: '' @ cv"
| "message_suffix nts (RangeValidationFailure m cv fv) =
     (let min = fst cv; max = snd cv in
      if min = None then ''must be less than or equal to '' @ template nts max
      else if max = None then ''must be greater than or equal to '' @ template nts min
      else ''must be between '' @ template nts min @ '' and '' @ template nts max
             @ '', inclusive'')"
| "message_suffix nts (UniqueItemsValidationFailure m fv) = ''must have unique values''"

definition generateValidationMessage :: "('n \<Rightarrow> string) \<Rightarrow> 'n ValidationFailure \<Rightarrow> string" where
  "generateValidationMessage nts failure =
     message_prefix failure @ '' '' @ failureValue nts failure
       @ '' failed to satisfy constraint: Member '' @ message_suffix nts failure"


section \<open>generateValidationSummary\<close>

text \<open>
  \<^verbatim>\<open>failures[0].memberName\<close> is a property read on \<^verbatim>\<open>undefined\<close> when the array is
  empty, which throws a \<^verbatim>\<open>TypeError\<close>; the function then returns nothing.
\<close>

definition generateValidationSummary ::
    "('n \<Rightarrow> string) \<Rightarrow> 'n ValidationFailure list \<Rightarrow> js_error + string" where
  "generateValidationSummary nts failures =
     (let failingMembers = set (map memberName failures);
          message = toString_nat (length failures) @ '' validation error''
                      @ (if length failures > 1 then ''s'' else '''') @ '' '';
          message = (if length failures > 1
                     then message @ ''across '' @ toString_nat (card failingMembers) @ '' ''
                            @ ''member'' @ (if card failingMembers > 1 then ''s'' else '''') @ '' ''
                     else message);
          message = message @ ''detected. ''
      in case index failures 0 of
           None \<Rightarrow> Inl TypeError
         | Some first \<Rightarrow>
             Inr (message @ ''Member '' @ [CHR 0x27] @ memberName first @ [CHR 0x27]
                    @ '' failed: '' @ generateValidationMessage nts first @ ''.''))"


section \<open>Reading a summary back\<close>

text \<open>
  The summary is one text. To speak of its parts, \<open>split_first pat s\<close> cuts \<open>s\<close> at the
  first place where \<open>pat\<close> occurs and returns the text before it and the text after it;
  \<open>clauses\<close> cuts a returned summary at its first "detected. ": the first component is the
  clause with the counts, the second is the clause that names a member.
\<close>

fun split_first :: "string \<Rightarrow> string \<Rightarrow> (string \<times> string) option" where
  "split_first pat [] = (if pat = [] then Some ([], []) else None)"
| "split_first pat (c # cs) =
     (if prefix pat (c # cs) then Some ([], drop (length pat) (c # cs))
      else map_option (\<lambda>(a, b). (c # a, b)) (split_first pat cs))"


definition clauses :: "js_error + string \<Rightarrow> (string \<times> string) option" where
  "clauses r = (case r of Inl e \<Rightarrow> None | Inr s \<Rightarrow> split_first ''detected. '' s)"


section \<open>The codegen fixture\<close>

text \<open>
  The bytes of \<^verbatim>\<open>test-sensitive-member-pointing-to-map.smithy\<close>: twenty lines, the last
  one without a line terminator.
\<close>

definition test_sensitive_member_pointing_to_map :: string where
  "test_sensitive_member_pointing_to_map =
     ''namespace smithy.example\<newline>'' @
     ''\<newline>'' @
     ''service Example {\<newline>'' @
     ''    version: \"1.0.0\",\<newline>'' @
     ''    operations: [GetFoo]\<newline>'' @
     ''}\<newline>'' @
     ''\<newline>'' @
     ''operation GetFoo {\<newline>'' @
     ''    input: GetFooInput\<newline>'' @
     ''}\<newline>'' @
     ''\<newline>'' @
     ''structure GetFooInput {\<newline>'' @
     ''    @sensitive\<newline>'' @
     ''    sensitiveFoo: NamesMap\<newline>'' @
     ''}\<newline>'' @
     ''\<newline>'' @
     ''map NamesMap {\<newline>'' @
     ''    key: String,\<newline>'' @
     ''    value: String\<newline>'' @
     ''}''"

text \<open>
  Following the spec's words: the lines of the IDL text that section 6 of the
  specification gives for the fixture.
\<close>

definition spec_fixture_lines :: "string list" where
  "spec_fixture_lines =
     [''namespace smithy.example'',
      '''',
      ''service Example {'',
      ''    version: \"1.0.0\",'',
      ''    operations: [GetFoo]'',
      ''}'',
      '''',
      ''operation GetFoo {'',
      ''    input: GetFooInput'',
      ''}'',
      '''',
      ''structure GetFooInput {'',
      ''    @sensitive'',
      ''    sensitiveFoo: NamesMap'',
      ''}'',
      '''',
      ''map NamesMap {'',
      ''    key: String,'',
      ''    value: String'',
      ''}'']"


section \<open>Messages of the single failure kinds\<close>

text \<open>
  C3. For a Required failure of any member, generateValidationMessage returns exactly
  the text "Value null failed to satisfy constraint: Member must not be null": the
  failure value is the literal text "null", whatever the number rendering.
\<close>

theorem required_message:
  "generateValidationMessage nts (RequiredValidationFailure m) =
     ''Value null failed to satisfy constraint: Member must not be null''"
  by (simp add: generateValidationMessage_def)

text \<open>
  C4. A Length failure has the prefix "Value with length", and its suffix follows the
  bounds that are present: both give "must have length between <min> and <max>,
  inclusive", the maximum alone gives "must have length less than or equal to <max>",
  the minimum alone gives "must have length greater than or equal to <min>". The last
  three conjuncts are the bounds (2, 10), (undefined, 10) and (2, undefined) with the
  failure value 1.
\<close>

theorem length_message:
  "generateValidationMessage nts (LengthValidationFailure m (Some lo, Some hi) fv) =
     ''Value with length '' @ nts fv @ '' failed to satisfy constraint: Member ''
       @ ''must have length between '' @ nts lo @ '' and '' @ nts hi @ '', inclusive''
   \<and> generateValidationMessage nts (LengthValidationFailure m (None, Some hi) fv) =
     ''Value with length '' @ nts fv @ '' failed to satisfy constraint: Member ''
       @ ''must have length less than or equal to '' @ nts hi
   \<and> generateValidationMessage nts (LengthValidationFailure m (Some lo, None) fv) =
     ''Value with length '' @ nts fv @ '' failed to satisfy constraint: Member ''
       @ ''must have length greater than or equal to '' @ nts lo
   \<and> suffix ''must have length between 2 and 10, inclusive''
        (generateValidationMessage toString_int (LengthValidationFailure m (Some 2, Some 10) 1))
   \<and> suffix ''must have length less than or equal to 10''
        (generateValidationMessage toString_int (LengthValidationFailure m (None, Some 10) 1))
   \<and> suffix ''must have length greater than or equal to 2''
        (generateValidationMessage toString_int (LengthValidationFailure m (Some 2, None) 1))"
  by (simp add: generateValidationMessage_def toString_int_def toString_nat.simps
        digitChar_def suffix_def)

text \<open>
  C5. A Range failure has the prefix "Value", and its suffix follows the bounds that are
  present: both give "must be between <min> and <max>, inclusive", the maximum alone
  gives "must be less than or equal to <max>", the minimum alone gives "must be greater
  than or equal to <min>". The last three conjuncts are the bounds (2, 10),
  (undefined, 10) and (2, undefined) with the failure value 1.
\<close>

theorem range_message:
  "generateValidationMessage nts (RangeValidationFailure m (Some lo, Some hi) fv) =
     ''Value '' @ nts fv @ '' failed to satisfy constraint: Member ''
       @ ''must be between '' @ nts lo @ '' and '' @ nts hi @ '', inclusive''
   \<and> generateValidationMessage nts (RangeValidationFailure m (None, Some hi) fv) =
     ''Value '' @ nts fv @ '' failed to satisfy constraint: Member ''
       @ ''must be less than or equal to '' @ nts hi
   \<and> generateValidationMessage nts (RangeValidationFailure m (Some lo, None) fv) =
     ''Value '' @ nts fv @ '' failed to satisfy constraint: Member ''
       @ ''must be greater than or equal to '' @ nts lo
   \<and> suffix ''must be between 2 and 10, inclusive''
        (generateValidationMessage toString_int (RangeValidationFailure m (Some 2, Some 10) 1))
   \<and> suffix ''must be less than or equal to 10''
        (generateValidationMessage toString_int (RangeValidationFailure m (None, Some 10) 1))
   \<and> suffix ''must be greater than or equal to 2''
        (generateValidationMessage toString_int (RangeValidationFailure m (Some 2, None) 1))"
  by (simp add: generateValidationMessage_def toString_int_def toString_nat.simps
        digitChar_def suffix_def)

text \<open>
  C6. An Enum failure gives "Value <failureValue> failed to satisfy constraint: Member
  must satisfy enum value set: <constraintValues>", the allowed values joined by commas
  without brackets; for the member "color", the values red, green, blue and the failure
  value "purple" the text is "Value purple failed to satisfy constraint: Member must
  satisfy enum value set: red,green,blue".
\<close>

theorem enum_message:
  "generateValidationMessage nts (EnumValidationFailure m cv fv) =
     ''Value '' @ fv @ '' failed to satisfy constraint: Member must satisfy enum value set: ''
       @ join '','' cv
   \<and> generateValidationMessage nts
        (EnumValidationFailure ''color'' [''red'', ''green'', ''blue''] ''purple'') =
     ''Value purple failed to satisfy constraint: Member must satisfy enum value set: red,green,blue''"
  by (simp add: generateValidationMessage_def)

text \<open>
  C7, as the claim states its example: for the failure value [1,2,2,3] the message would
  be "Value 1,2,2,3 failed to satisfy constraint: Member must have unique values". The
  code puts the prefix "Value with repeated values" before the array, so the message is
  a different text.
\<close>

theorem unique_items_message_counterexample:
  "generateValidationMessage toString_int
     (UniqueItemsValidationFailure ''items'' [JSNumber 1, JSNumber 2, JSNumber 2, JSNumber 3]) \<noteq>
   ''Value 1,2,2,3 failed to satisfy constraint: Member must have unique values''"
  by (simp add: generateValidationMessage_def toString_int_def toString_nat.simps digitChar_def)

text \<open>
  C7, amended. A UniqueItems failure gives "Value with repeated values <failureValue>
  failed to satisfy constraint: Member must have unique values", the array printed as
  its elements joined by commas, repeats included; for the failure value [1,2,2,3] the
  text is "Value with repeated values 1,2,2,3 failed to satisfy constraint: Member must
  have unique values".
\<close>

theorem unique_items_message:
  "generateValidationMessage nts (UniqueItemsValidationFailure m fv) =
     ''Value with repeated values ''
       @ join '','' (map (\<lambda>x. if x = JSUndefined \<or> x = JSNull then [] else ToString nts x) fv)
       @ '' failed to satisfy constraint: Member must have unique values''
   \<and> generateValidationMessage toString_int
        (UniqueItemsValidationFailure m [JSNumber 1, JSNumber 2, JSNumber 2, JSNumber 3]) =
     ''Value with repeated values 1,2,2,3 failed to satisfy constraint: Member must have unique values''"
  by (simp add: generateValidationMessage_def toString_int_def toString_nat.simps digitChar_def)

text \<open>
  C10. When the minimum of a Length or Range failure is absent, the message is the
  "less than or equal to" one whatever the maximum is: the test of the minimum comes
  first. With both bounds absent the function still returns a text, in which the absent
  maximum is printed as "undefined".
\<close>

theorem absent_min_message:
  "generateValidationMessage nts (LengthValidationFailure m (None, mx) fv) =
     ''Value with length '' @ nts fv @ '' failed to satisfy constraint: Member ''
       @ ''must have length less than or equal to '' @ template nts mx
   \<and> generateValidationMessage nts (RangeValidationFailure m (None, mx) fv) =
     ''Value '' @ nts fv @ '' failed to satisfy constraint: Member ''
       @ ''must be less than or equal to '' @ template nts mx
   \<and> generateValidationMessage nts (LengthValidationFailure m (None, None) fv) =
     ''Value with length '' @ nts fv @ '' failed to satisfy constraint: Member ''
       @ ''must have length less than or equal to undefined''
   \<and> generateValidationMessage nts (RangeValidationFailure m (None, None) fv) =
     ''Value '' @ nts fv @ '' failed to satisfy constraint: Member ''
       @ ''must be less than or equal to undefined''"
  by (simp add: generateValidationMessage_def)


section \<open>The summary of a sequence of failures\<close>

text \<open>
  C8. On the empty sequence generateValidationSummary reads the first element, which is
  absent, and ends in the error branch: it returns no summary. A summary is returned
  exactly when the sequence is not empty.
\<close>

theorem summary_empty:
  "generateValidationSummary nts [] = Inl TypeError
   \<and> (\<exists>s. generateValidationSummary nts failures = Inr s) = (failures \<noteq> [])"
  by (cases failures) (simp_all add: generateValidationSummary_def index_def Let_def)

text \<open>The summary of a sequence with a first element, written out.\<close>

lemma summary_Cons:
  "generateValidationSummary nts (f # fs) =
     Inr (toString_nat (length (f # fs)) @ '' validation error''
            @ (if length (f # fs) > 1 then ''s'' else '''') @ '' ''
            @ (if length (f # fs) > 1
               then ''across '' @ toString_nat (card (set (map memberName (f # fs)))) @ '' member''
                      @ (if card (set (map memberName (f # fs))) > 1 then ''s'' else '''') @ '' ''
               else '''')
            @ ''detected. ''
            @ ''Member '' @ [CHR 0x27] @ memberName f @ [CHR 0x27] @ '' failed: ''
            @ generateValidationMessage nts f @ ''.'')"
  by (simp add: generateValidationSummary_def index_def Let_def)

text \<open>
  A decimal numeral has no letter in it, so the first "detected. " of a summary is the
  one the function writes after the counts.
\<close>

lemma digitChar_not_d: "d < 10 \<Longrightarrow> digitChar d \<noteq> CHR ''d''"
proof -
  assume "d < 10"
  then have "d \<in> {0, 1, 2, 3, 4, 5, 6, 7, 8, 9}" by auto
  then show ?thesis by (auto simp: digitChar_def)
qed

lemma toString_nat_no_d: "CHR ''d'' \<notin> set (toString_nat n)"
proof (induction n rule: toString_nat.induct)
  case (1 n)
  show ?case
  proof (cases "n < 10")
    case True
    then show ?thesis using digitChar_not_d [of n] by (simp add: toString_nat.simps [of n])
  next
    case False
    have "n mod 10 < 10" by simp
    then have "digitChar (n mod 10) \<noteq> CHR ''d''" by (rule digitChar_not_d)
    with False 1 show ?thesis by (simp add: toString_nat.simps [of n])
  qed
qed

lemma split_first_skip:
  "CHR ''d'' \<notin> set ds \<Longrightarrow>
   split_first ''detected. '' (ds @ s) =
     map_option (\<lambda>(a, b). (ds @ a, b)) (split_first ''detected. '' s)"
proof (induction ds)
  case Nil
  show ?case by (simp add: option.map_ident split_def)
next
  case (Cons c ds)
  then show ?case by (cases "split_first ''detected. '' s") (auto)
qed

lemma split_first_digits:
  "split_first ''detected. '' (toString_nat n @ s) =
     map_option (\<lambda>(a, b). (toString_nat n @ a, b)) (split_first ''detected. '' s)"
  by (rule split_first_skip) (rule toString_nat_no_d)

lemma clauses_summary:
  "clauses (generateValidationSummary nts (f # fs)) =
     Some (toString_nat (length (f # fs)) @ '' validation error''
            @ (if length (f # fs) > 1 then ''s'' else '''') @ '' ''
            @ (if length (f # fs) > 1
               then ''across '' @ toString_nat (card (set (map memberName (f # fs)))) @ '' member''
                      @ (if card (set (map memberName (f # fs))) > 1 then ''s'' else '''') @ '' ''
               else ''''),
           ''Member '' @ [CHR 0x27] @ memberName f @ [CHR 0x27] @ '' failed: ''
            @ generateValidationMessage nts f @ ''.'')"
  unfolding summary_Cons clauses_def
  by (simp add: split_first_digits)

lemma clauses_example:
  "clauses (generateValidationSummary toString_int
      [RangeValidationFailure ''a'' (Some 3, None) 1, RequiredValidationFailure ''b'']) =
   Some (''2 validation errors across 2 members '',
         ''Member 'a' failed: Value 1 failed to satisfy constraint: Member must be greater than or equal to 3.'')"
  by (simp add: generateValidationSummary_def index_def clauses_def generateValidationMessage_def
        toString_int_def toString_nat.simps digitChar_def)

text \<open>
  C1. For a non-empty sequence of failures the summary is "<count> validation error",
  an "s" when count > 1, a space, then only when count > 1 "across <distinctMembers>
  member", an "s" when distinctMembers > 1, and a space, then "detected. ", then "Member
  '<memberName of failures[0]>' failed: <message of failures[0]>.", where count is the
  length of the sequence and distinctMembers the number of distinct member names in it.
  One failure on the member "bar" gives "1 validation error detected. Member 'bar'
  failed: <message>."; three failures on the members a, a, b give a text that starts
  with "3 validation errors across 2 members detected. ".
\<close>

theorem summary_text:
  assumes "failures \<noteq> []"
  shows "generateValidationSummary nts failures =
     (let count = length failures;
          distinctMembers = card (set (map memberName failures))
      in Inr (toString_nat count @ '' validation error'' @ (if count > 1 then ''s'' else '''')
                @ '' ''
                @ (if count > 1
                   then ''across '' @ toString_nat distinctMembers @ '' member''
                          @ (if distinctMembers > 1 then ''s'' else '''') @ '' ''
                   else '''')
                @ ''detected. ''
                @ ''Member '' @ [CHR 0x27] @ memberName (failures ! 0) @ [CHR 0x27]
                @ '' failed: '' @ generateValidationMessage nts (failures ! 0) @ ''.''))
   \<and> (memberName g = ''bar'' \<longrightarrow>
        generateValidationSummary nts [g] =
          Inr (''1 validation error detected. Member 'bar' failed: ''
                 @ generateValidationMessage nts g @ ''.''))
   \<and> (memberName x = ''a'' \<and> memberName y = ''a'' \<and> memberName z = ''b'' \<longrightarrow>
        generateValidationSummary nts [x, y, z] =
          Inr (''3 validation errors across 2 members detected. '' @ ''Member 'a' failed: ''
                 @ generateValidationMessage nts x @ ''.''))"
proof (intro conjI impI)
  from assms obtain f fs where "failures = f # fs" by (cases failures) auto
  then show "generateValidationSummary nts failures =
     (let count = length failures;
          distinctMembers = card (set (map memberName failures))
      in Inr (toString_nat count @ '' validation error'' @ (if count > 1 then ''s'' else '''')
                @ '' ''
                @ (if count > 1
                   then ''across '' @ toString_nat distinctMembers @ '' member''
                          @ (if distinctMembers > 1 then ''s'' else '''') @ '' ''
                   else '''')
                @ ''detected. ''
                @ ''Member '' @ [CHR 0x27] @ memberName (failures ! 0) @ [CHR 0x27]
                @ '' failed: '' @ generateValidationMessage nts (failures ! 0) @ ''.''))"
    by (simp add: summary_Cons Let_def)
next
  assume "memberName g = ''bar''"
  then show "generateValidationSummary nts [g] =
          Inr (''1 validation error detected. Member 'bar' failed: ''
                 @ generateValidationMessage nts g @ ''.'')"
    by (simp add: summary_Cons toString_nat.simps digitChar_def)
next
  assume "memberName x = ''a'' \<and> memberName y = ''a'' \<and> memberName z = ''b''"
  then show "generateValidationSummary nts [x, y, z] =
          Inr (''3 validation errors across 2 members detected. '' @ ''Member 'a' failed: ''
                 @ generateValidationMessage nts x @ ''.'')"
    by (simp add: summary_Cons toString_nat.simps digitChar_def)
qed

theorem summary_text_witness:
  "[LengthValidationFailure ''a'' (Some 2, Some 10) 1, RequiredValidationFailure ''a'',
    EnumValidationFailure ''b'' [''x'', ''y''] ''z''] \<noteq> []
   \<and> memberName (RequiredValidationFailure ''bar'' :: int ValidationFailure) = ''bar''
   \<and> memberName (LengthValidationFailure ''a'' (Some 2, Some 10) (1 :: int)) = ''a''
   \<and> memberName (RequiredValidationFailure ''a'' :: int ValidationFailure) = ''a''
   \<and> memberName (EnumValidationFailure ''b'' [''x'', ''y''] ''z'' :: int ValidationFailure) = ''b''
   \<and> generateValidationSummary toString_int
        [LengthValidationFailure ''a'' (Some 2, Some 10) 1, RequiredValidationFailure ''a'',
         EnumValidationFailure ''b'' [''x'', ''y''] ''z''] =
      Inr ''3 validation errors across 2 members detected. Member 'a' failed: Value with length 1 failed to satisfy constraint: Member must have length between 2 and 10, inclusive.''
   \<and> generateValidationSummary toString_int [RequiredValidationFailure ''bar''] =
      Inr ''1 validation error detected. Member 'bar' failed: Value null failed to satisfy constraint: Member must not be null.''"
  using summary_text [where nts = toString_int
      and failures = "[LengthValidationFailure ''a'' (Some 2, Some 10) 1,
        RequiredValidationFailure ''a'', EnumValidationFailure ''b'' [''x'', ''y''] ''z'']"
      and g = "RequiredValidationFailure ''bar''"
      and x = "LengthValidationFailure ''a'' (Some 2, Some 10) 1"
      and y = "RequiredValidationFailure ''a''"
      and z = "EnumValidationFailure ''b'' [''x'', ''y''] ''z''"]
  by (simp add: generateValidationMessage_def toString_int_def toString_nat.simps digitChar_def)

text \<open>
  C2. The clause of the summary that follows "detected. " is "Member '<name>' failed:
  <message>." of the first failure alone: failures added after the first one, at the end
  or in between, leave it as it is. The clause before "detected. " has the length of the
  whole extended sequence and the number of distinct member names of the whole extended
  sequence.
\<close>

theorem summary_clauses:
  "map_option snd (clauses (generateValidationSummary nts (f # fs))) =
     Some (''Member '' @ [CHR 0x27] @ memberName f @ [CHR 0x27] @ '' failed: ''
             @ generateValidationMessage nts f @ ''.'')
   \<and> map_option snd (clauses (generateValidationSummary nts (f # fs @ more))) =
     map_option snd (clauses (generateValidationSummary nts (f # fs)))
   \<and> map_option snd (clauses (generateValidationSummary nts (f # more @ fs))) =
     map_option snd (clauses (generateValidationSummary nts (f # fs)))
   \<and> map_option fst (clauses (generateValidationSummary nts (f # fs @ more))) =
     (let count = length (f # fs @ more);
          distinctMembers = card (set (map memberName (f # fs @ more)))
      in Some (toString_nat count @ '' validation error'' @ (if count > 1 then ''s'' else '''')
                 @ '' ''
                 @ (if count > 1
                    then ''across '' @ toString_nat distinctMembers @ '' member''
                           @ (if distinctMembers > 1 then ''s'' else '''') @ '' ''
                    else '''')))"
  unfolding clauses_summary Let_def by simp

text \<open>
  C9. The fixture file is the IDL text of the specification, line by line: the namespace
  smithy.example, the service Example with version "1.0.0" and the operation GetFoo, the
  operation GetFoo with the input GetFooInput, the structure GetFooInput with the one
  member sensitiveFoo, marked sensitive and of type NamesMap, and the map NamesMap from
  String to String, and nothing else. The file is 259 bytes long.
\<close>

theorem fixture_is_spec_text:
  "test_sensitive_member_pointing_to_map = join ''\<newline>'' spec_fixture_lines
   \<and> length test_sensitive_member_pointing_to_map = 259"
  by (simp add: test_sensitive_member_pointing_to_map_def spec_fixture_lines_def)

end
